theory Spec2Isabelle
  imports Main
begin

section \<open>Python strings\<close>

text \<open>
  A Python \<open>str\<close> is a sequence of Unicode code points, and \<open>len\<close> counts code points;
  the session-id check classifies single characters with \<open>str.isalnum\<close>, which knows the
  whole Unicode database. A string is therefore a list of code points.
\<close>

type_synonym pystr = "nat list"

definition py :: "string \<Rightarrow> pystr" where
  "py s = map of_char s"

section \<open>External collaborators\<close>

text \<open>
  What api.py and tool.py call but do not define:
  \<^item> \<open>unicode_alnum\<close>: the verdict of \<open>str.isalnum\<close> on one code point from 256 upwards
    (the Unicode database of the interpreter);
  \<^item> \<open>unicode_lower\<close>: \<open>str.lower\<close> on a string that has a code point from 256
    upwards;
  \<^item> \<open>py_repr\<close>: \<open>repr\<close> of a string, which is the text of a \<open>KeyError\<close>;
  \<^item> \<open>llm_construct\<close>: building \<open>ChatGoogleGenerativeAI(model, google_api_key)\<close>, with
    \<open>Some e\<close> for an exception whose \<open>str\<close> is \<open>e\<close>;
  \<^item> \<open>llm_invoke\<close>: \<open>(prompt | llm).invoke\<close> for the key bound to the chain, the chat
    history and the input, returning the reply's \<open>content\<close> or \<open>Inl e\<close> for an exception
    whose \<open>str\<close> is \<open>e\<close>. The prompt template is fixed (SYSTEM_PROMPT, the history, the
    input), so it is part of this function.
  External calls are functions of their arguments. The \<open>timestamp\<close> fields of the
  responses and \<open>startup_time\<close> are read from the wall clock and are left out.
\<close>

datatype BaseMessage = HumanMessage (content: pystr) | AIMessage (content: pystr)

record env =
  unicode_alnum :: "nat \<Rightarrow> bool"
  unicode_lower :: "pystr \<Rightarrow> pystr"
  py_repr :: "pystr \<Rightarrow> pystr"
  llm_construct :: "pystr \<Rightarrow> pystr option"
  llm_invoke :: "pystr \<Rightarrow> BaseMessage list \<Rightarrow> pystr \<Rightarrow> pystr + pystr"

subsection \<open>str.isalnum, str.replace, str.startswith, str.lower, str.partition\<close>

definition ascii_alnum :: "nat \<Rightarrow> bool" where
  "ascii_alnum c = ((48 \<le> c \<and> c \<le> 57) \<or> (65 \<le> c \<and> c \<le> 90) \<or> (97 \<le> c \<and> c \<le> 122))"

text \<open>
  Code points 128 to 255: the letters (categories Lu, Ll, Lo) and the characters with a
  numeric value (superscript digits, vulgar fractions); the multiplication and division
  signs at 215 and 247 are symbols.
\<close>

definition latin1_alnum :: "nat \<Rightarrow> bool" where
  "latin1_alnum c =
     (c = 170 \<or> c = 178 \<or> c = 179 \<or> c = 181 \<or> c = 185 \<or> c = 186 \<or>
      c = 188 \<or> c = 189 \<or> c = 190 \<or>
      (192 \<le> c \<and> c \<le> 214) \<or> (216 \<le> c \<and> c \<le> 246) \<or> (248 \<le> c \<and> c \<le> 255))"

definition isalnum_char :: "env \<Rightarrow> nat \<Rightarrow> bool" where
  "isalnum_char E c =
     (if c < 128 then ascii_alnum c
      else if c < 256 then latin1_alnum c
      else unicode_alnum E c)"

text \<open>\<open>s.isalnum()\<close>: at least one character, and every character alphanumeric.\<close>

definition isalnum :: "env \<Rightarrow> pystr \<Rightarrow> bool" where
  "isalnum E s = (s \<noteq> [] \<and> list_all (isalnum_char E) s)"

text \<open>\<open>s.replace(c, '')\<close> for a one-character \<open>c\<close>: every occurrence is dropped.\<close>

definition replace :: "pystr \<Rightarrow> nat \<Rightarrow> pystr" where
  "replace s c = filter (\<lambda>x. x \<noteq> c) s"

definition startswith :: "pystr \<Rightarrow> pystr \<Rightarrow> bool" where
  "startswith s p = (take (length p) s = p)"

text \<open>
  \<open>str.lower\<close> below code point 256: the ASCII capitals and the capitals from 192 to
  222 (215, the multiplication sign, is not one) move up by 32.
\<close>

definition latin1_lower :: "nat \<Rightarrow> nat" where
  "latin1_lower c =
     (if (65 \<le> c \<and> c \<le> 90) \<or> (192 \<le> c \<and> c \<le> 222 \<and> c \<noteq> 215) then c + 32 else c)"

definition lower :: "env \<Rightarrow> pystr \<Rightarrow> pystr" where
  "lower E s = (if list_all (\<lambda>c. c < 256) s then map latin1_lower s else unicode_lower E s)"

text \<open>\<open>s.partition(' ')\<close>: what stands before the first space, and what stands after
  it; without a space, the string and the empty string.\<close>

definition partition_space :: "pystr \<Rightarrow> pystr \<times> pystr" where
  "partition_space s = (takeWhile (\<lambda>c. c \<noteq> 32) s, drop 1 (dropWhile (\<lambda>c. c \<noteq> 32) s))"

section \<open>tool.py\<close>

text \<open>
  The chain is \<open>prompt | llm\<close>; the only thing that varies between two chains is the key
  the model object was built with. The memory is a \<open>ConversationBufferMemory\<close>, whose
  content is the list of messages saved so far.
\<close>

datatype chain = Chain (google_api_key: pystr)

type_synonym memory = "BaseMessage list"

definition get_diet_agent_chain :: "env \<Rightarrow> pystr \<Rightarrow> pystr + (chain \<times> memory)" where
  "get_diet_agent_chain E api_key =
     (case llm_construct E api_key of
        Some e \<Rightarrow> Inl e
      | None \<Rightarrow> Inr (Chain api_key, []))"

definition invoke :: "env \<Rightarrow> chain \<Rightarrow> BaseMessage list \<Rightarrow> pystr \<Rightarrow> pystr + pystr" where
  "invoke E agent_chain chat_history user_input =
     llm_invoke E (google_api_key agent_chain) chat_history user_input"

text \<open>\<open>memory.load_memory_variables({}).get("chat_history", [])\<close>: the saved messages.\<close>

definition load_memory_variables :: "memory \<Rightarrow> BaseMessage list" where
  "load_memory_variables mem = mem"

text \<open>\<open>memory.save_context\<close> appends the input as a human message, then the output as an
  AI message.\<close>

definition save_context :: "memory \<Rightarrow> pystr \<Rightarrow> pystr \<Rightarrow> memory" where
  "save_context mem inp outp = mem @ [HumanMessage inp, AIMessage outp]"

section \<open>api.py: state, requests, responses\<close>

record app_state =
  agent_chains :: "pystr \<rightharpoonup> chain"
  memories :: "pystr \<rightharpoonup> memory"

definition initial_state :: app_state where
  "initial_state = \<lparr>agent_chains = Map.empty, memories = Map.empty\<rparr>"

datatype ChatRequest = ChatRequest (message: pystr) (session_id: pystr)

datatype InitSessionRequest = InitSessionRequest (init_session_id: pystr)

datatype ChatResponse = ChatResponse (response: pystr) (chat_session_id: pystr) (chat_status: pystr)

datatype SessionResponse =
  SessionResponse (resp_session_id: pystr) (resp_status: pystr) (resp_message: pystr)

datatype HTTPAuthorizationCredentials =
  HTTPAuthorizationCredentials (scheme: pystr) (credentials: pystr)

text \<open>
  What a caller gets instead of a response model: an \<open>HTTPException\<close> with its status
  code and detail, or the framework's \<open>RequestValidationError\<close> (status 422) when the
  request body does not validate.
\<close>

datatype http_error = HTTPException (status_code: nat) (detail: pystr) | RequestValidationError

subsection \<open>Request models\<close>

text \<open>The validator of both request models: raise \<open>ValueError\<close> (\<open>None\<close>) or return \<open>v\<close>.\<close>

definition validate_session_id :: "env \<Rightarrow> pystr \<Rightarrow> pystr option" where
  "validate_session_id E v =
     (if \<not> isalnum E (replace (replace v 45) 95) then None else Some v)"

text \<open>
  Building a request model from the body: the \<open>Field\<close> length bounds, then the
  validator; any failure is a validation error.
\<close>

definition make_InitSessionRequest :: "env \<Rightarrow> pystr \<Rightarrow> http_error + InitSessionRequest" where
  "make_InitSessionRequest E sid =
     (if 1 \<le> length sid \<and> length sid \<le> 100 then
        (case validate_session_id E sid of
           None \<Rightarrow> Inl RequestValidationError
         | Some v \<Rightarrow> Inr (InitSessionRequest v))
      else Inl RequestValidationError)"

definition make_ChatRequest :: "env \<Rightarrow> pystr \<Rightarrow> pystr \<Rightarrow> http_error + ChatRequest" where
  "make_ChatRequest E msg sid =
     (if 1 \<le> length msg \<and> length msg \<le> 2000 \<and> 1 \<le> length sid \<and> length sid \<le> 100 then
        (case validate_session_id E sid of
           None \<Rightarrow> Inl RequestValidationError
         | Some v \<Rightarrow> Inr (ChatRequest msg v))
      else Inl RequestValidationError)"

subsection \<open>security\<close>

text \<open>
  \<open>security = HTTPBearer(auto_error=False)\<close>, the dependency of \<open>get_api_key\<close>. It reads
  the \<open>Authorization\<close> header (\<open>None\<close> when the request has none), splits it at the
  first space into scheme and credentials, and returns \<open>None\<close> rather than raising
  when the header, the scheme or the credentials are empty, or the scheme is not
  \<open>bearer\<close> in any capitalisation.
\<close>

definition get_authorization_scheme_param :: "pystr option \<Rightarrow> pystr \<times> pystr" where
  "get_authorization_scheme_param authorization_header_value =
     (case authorization_header_value of
        None \<Rightarrow> ([], [])
      | Some v \<Rightarrow> (if v = [] then ([], []) else partition_space v))"

definition security :: "env \<Rightarrow> pystr option \<Rightarrow> HTTPAuthorizationCredentials option" where
  "security E authorization =
     (case get_authorization_scheme_param authorization of
        (sch, cred) \<Rightarrow>
          if authorization = None \<or> authorization = Some [] \<or> sch = [] \<or> cred = [] then None
          else if lower E sch \<noteq> py ''bearer'' then None
          else Some (HTTPAuthorizationCredentials sch cred))"

subsection \<open>get_api_key\<close>

definition get_api_key :: "HTTPAuthorizationCredentials option \<Rightarrow> http_error + pystr" where
  "get_api_key creds =
     (case creds of
        None \<Rightarrow> Inl (HTTPException 401
          (py ''API key required. Provide Gemini API key in Authorization header as Bearer token''))
      | Some c \<Rightarrow>
          (let api_key = credentials c in
           if api_key = [] \<or> \<not> startswith api_key (py ''AI'') then
             Inl (HTTPException 401
               (py ''Invalid API key format. Please provide a valid Gemini API key''))
           else Inr api_key))"

subsection \<open>global_exception_handler\<close>

datatype JSONResponse = JSONResponse (json_status_code: nat) (json_detail: pystr) (json_status: pystr)

definition global_exception_handler :: "pystr \<Rightarrow> JSONResponse" where
  "global_exception_handler exc =
     JSONResponse 500 (py ''Internal server error occurred'') (py ''error'')"

section \<open>api.py: the route handlers\<close>

text \<open>
  A handler takes the state and returns what the caller receives together with the state
  it leaves behind. Each handler's body is inside \<open>try ... except Exception\<close>, which
  turns any exception \<open>e\<close> into an \<open>HTTPException\<close> with status 500 whose detail ends
  with \<open>str(e)\<close>; the writes made before the exception stay.
\<close>

definition initialize_session ::
  "env \<Rightarrow> InitSessionRequest \<Rightarrow> pystr \<Rightarrow> app_state \<Rightarrow> (http_error + SessionResponse) \<times> app_state"
where
  "initialize_session E request api_key st =
     (let sid = init_session_id request in
      case agent_chains st sid of
        Some _ \<Rightarrow>
          (Inr (SessionResponse sid (py ''exists'') (py ''Session already initialized'')), st)
      | None \<Rightarrow>
          (case get_diet_agent_chain E api_key of
             Inl e \<Rightarrow>
               (Inl (HTTPException 500 (py ''Failed to initialize session: '' @ e)), st)
           | Inr (agent_chain, mem) \<Rightarrow>
               (Inr (SessionResponse sid (py ''initialized'')
                      (py ''Session successfully initialized. You can now start chatting!'')),
                st\<lparr>agent_chains := (agent_chains st)(sid \<mapsto> agent_chain),
                   memories := (memories st)(sid \<mapsto> mem)\<rparr>)))"

text \<open>
  \<open>chat\<close>: the session is created when \<open>agent_chains\<close> does not have it; then both
  dictionary reads (a missing key raises \<open>KeyError\<close>, whose text is the \<open>repr\<close> of the
  key), the model call, and \<open>save_context\<close> on the session's memory object, which the
  dictionary holds by reference.
\<close>

definition chat ::
  "env \<Rightarrow> ChatRequest \<Rightarrow> pystr \<Rightarrow> app_state \<Rightarrow> (http_error + ChatResponse) \<times> app_state"
where
  "chat E request api_key st =
     (let sid = session_id request; user_message = message request;
          failed = (\<lambda>e. Inl (HTTPException 500 (py ''Failed to generate response: '' @ e)));
          created =
            (case agent_chains st sid of
               Some _ \<Rightarrow> Inr st
             | None \<Rightarrow>
                 (case get_diet_agent_chain E api_key of
                    Inl e \<Rightarrow> Inl e
                  | Inr (agent_chain, mem) \<Rightarrow>
                      Inr (st\<lparr>agent_chains := (agent_chains st)(sid \<mapsto> agent_chain),
                              memories := (memories st)(sid \<mapsto> mem)\<rparr>)))
      in case created of
           Inl e \<Rightarrow> (failed e, st)
         | Inr st1 \<Rightarrow>
             (case agent_chains st1 sid of
                None \<Rightarrow> (failed (py_repr E sid), st1)
              | Some agent_chain \<Rightarrow>
                  (case memories st1 sid of
                     None \<Rightarrow> (failed (py_repr E sid), st1)
                   | Some mem \<Rightarrow>
                       (let chat_history = load_memory_variables mem in
                        case invoke E agent_chain chat_history user_message of
                          Inl e \<Rightarrow> (failed e, st1)
                        | Inr ai_response \<Rightarrow>
                            (Inr (ChatResponse ai_response sid (py ''success'')),
                             st1\<lparr>memories :=
                                   (memories st1)(sid \<mapsto>
                                      save_context mem user_message ai_response)\<rparr>)))))"

definition clear_session ::
  "env \<Rightarrow> pystr \<Rightarrow> app_state \<Rightarrow> (http_error + SessionResponse) \<times> app_state"
where
  "clear_session E sid st =
     (case agent_chains st sid of
        Some _ \<Rightarrow>
          (let st1 = st\<lparr>agent_chains := (agent_chains st)(sid := None)\<rparr> in
           case memories st1 sid of
             None \<Rightarrow>
               (Inl (HTTPException 500 (py ''Failed to clear session: '' @ py_repr E sid)), st1)
           | Some _ \<Rightarrow>
               (Inr (SessionResponse sid (py ''cleared'') (py ''Session cleared successfully'')),
                st1\<lparr>memories := (memories st1)(sid := None)\<rparr>))
      | None \<Rightarrow>
          (Inr (SessionResponse sid (py ''not_found'') (py ''Session not found'')), st))"

text \<open>\<open>list_sessions\<close>: the keys of \<open>agent_chains\<close>, as a set.\<close>

definition list_sessions :: "app_state \<Rightarrow> pystr set" where
  "list_sessions st = dom (agent_chains st)"

section \<open>api.py: the routes\<close>

text \<open>
  What the framework does around a handler, from the handler's signature. The body is
  decoded first, and a body that is not JSON ends the request with a validation error.
  Then the dependencies run: \<open>security\<close> on the \<open>Authorization\<close> header, and
  \<open>get_api_key\<close> on its result, whose \<open>HTTPException\<close> ends the request. Then the
  decoded body is validated into the request model, and then the handler runs. The
  route of \<open>clear_session\<close> has neither a dependency nor a request model: its
  \<open>session_id\<close> is the path segment, a plain \<open>str\<close>.

  A request body is \<open>NotJSON\<close>, a body sent as JSON that does not decode, or the fields
  the request model reads from it; a field is \<open>None\<close> when the body has no string under
  its name, as in an empty body or a body of another content type.

  \<open>run_init_session\<close> and \<open>run_chat\<close> are the part of a route that follows the
  \<open>security\<close> dependency, for a body whose fields are strings.
\<close>

datatype 'a request_body = NotJSON | JSON 'a

definition run_init_session ::
  "env \<Rightarrow> HTTPAuthorizationCredentials option \<Rightarrow> pystr \<Rightarrow> app_state
     \<Rightarrow> (http_error + SessionResponse) \<times> app_state"
where
  "run_init_session E creds sid st =
     (case get_api_key creds of
        Inl err \<Rightarrow> (Inl err, st)
      | Inr api_key \<Rightarrow>
          (case make_InitSessionRequest E sid of
             Inl err \<Rightarrow> (Inl err, st)
           | Inr request \<Rightarrow> initialize_session E request api_key st))"

definition run_chat ::
  "env \<Rightarrow> HTTPAuthorizationCredentials option \<Rightarrow> pystr \<Rightarrow> pystr \<Rightarrow> app_state
     \<Rightarrow> (http_error + ChatResponse) \<times> app_state"
where
  "run_chat E creds msg sid st =
     (case get_api_key creds of
        Inl err \<Rightarrow> (Inl err, st)
      | Inr api_key \<Rightarrow>
          (case make_ChatRequest E msg sid of
             Inl err \<Rightarrow> (Inl err, st)
           | Inr request \<Rightarrow> chat E request api_key st))"

definition post_init_session ::
  "env \<Rightarrow> pystr option \<Rightarrow> pystr option request_body \<Rightarrow> app_state
     \<Rightarrow> (http_error + SessionResponse) \<times> app_state"
where
  "post_init_session E authorization body st =
     (case body of
        NotJSON \<Rightarrow> (Inl RequestValidationError, st)
      | JSON None \<Rightarrow>
          (case get_api_key (security E authorization) of
             Inl err \<Rightarrow> (Inl err, st)
           | Inr api_key \<Rightarrow> (Inl RequestValidationError, st))
      | JSON (Some sid) \<Rightarrow> run_init_session E (security E authorization) sid st)"

definition post_chat ::
  "env \<Rightarrow> pystr option \<Rightarrow> (pystr option \<times> pystr option) request_body \<Rightarrow> app_state
     \<Rightarrow> (http_error + ChatResponse) \<times> app_state"
where
  "post_chat E authorization body st =
     (case body of
        NotJSON \<Rightarrow> (Inl RequestValidationError, st)
      | JSON (Some msg, Some sid) \<Rightarrow> run_chat E (security E authorization) msg sid st
      | JSON _ \<Rightarrow>
          (case get_api_key (security E authorization) of
             Inl err \<Rightarrow> (Inl err, st)
           | Inr api_key \<Rightarrow> (Inl RequestValidationError, st)))"

definition delete_clear_session ::
  "env \<Rightarrow> pystr \<Rightarrow> app_state \<Rightarrow> (http_error + SessionResponse) \<times> app_state"
where
  "delete_clear_session E sid st = clear_session E sid st"

section \<open>Sample environments and states\<close>

text \<open>
  A model that answers every input with \<open>ok\<close>, and one whose every call raises an
  exception with the text \<open>quota exceeded\<close>.
\<close>

definition answering_env :: env where
  "answering_env =
     \<lparr>unicode_alnum = (\<lambda>c. False), unicode_lower = (\<lambda>s. s),
      py_repr = (\<lambda>s. [39] @ s @ [39]),
      llm_construct = (\<lambda>k. None), llm_invoke = (\<lambda>k h m. Inr (py ''ok''))\<rparr>"

definition failing_env :: env where
  "failing_env =
     \<lparr>unicode_alnum = (\<lambda>c. False), unicode_lower = (\<lambda>s. s),
      py_repr = (\<lambda>s. [39] @ s @ [39]),
      llm_construct = (\<lambda>k. None), llm_invoke = (\<lambda>k h m. Inl (py ''quota exceeded''))\<rparr>"

text \<open>One session \<open>s1\<close> with one exchange saved.\<close>

definition one_session :: app_state where
  "one_session =
     \<lparr>agent_chains = [py ''s1'' \<mapsto> Chain (py ''AIkey'')],
      memories = [py ''s1'' \<mapsto> [HumanMessage (py ''hi''), AIMessage (py ''hello'')]]\<rparr>"

definition after_more :: app_state where
  "after_more =
     \<lparr>agent_chains = [py ''s1'' \<mapsto> Chain (py ''AIkey'')],
      memories = [py ''s1'' \<mapsto> [HumanMessage (py ''hi''), AIMessage (py ''hello''),
                                 HumanMessage (py ''more''), AIMessage (py ''ok'')]]\<rparr>"

definition first_exchange :: app_state where
  "first_exchange =
     \<lparr>agent_chains = [py ''s2'' \<mapsto> Chain (py ''AIkey'')],
      memories = [py ''s2'' \<mapsto> [HumanMessage (py ''hi''), AIMessage (py ''ok'')]]\<rparr>"

definition more_request :: ChatRequest where
  "more_request = ChatRequest (py ''more'') (py ''s1'')"

definition two_calls :: "(ChatRequest \<times> pystr) list" where
  "two_calls = [(more_request, py ''AIother''), (ChatRequest (py ''again'') (py ''s1''), py ''AIkey'')]"

definition bearer :: "pystr \<Rightarrow> HTTPAuthorizationCredentials option" where
  "bearer k = Some (HTTPAuthorizationCredentials (py ''Bearer'') k)"

text \<open>The state after \<open>initialize_session\<close> for \<open>s2\<close> on the empty store.\<close>

definition only_initialized :: app_state where
  "only_initialized =
     \<lparr>agent_chains = [py ''s2'' \<mapsto> Chain (py ''AIkey'')], memories = [py ''s2'' \<mapsto> []]\<rparr>"

text \<open>Two sessions, \<open>s1\<close> and \<open>s2\<close>, with one exchange each.\<close>

definition two_sessions :: app_state where
  "two_sessions =
     \<lparr>agent_chains = [py ''s1'' \<mapsto> Chain (py ''AIkey''), py ''s2'' \<mapsto> Chain (py ''AIkey'')],
      memories = [py ''s1'' \<mapsto> [HumanMessage (py ''hi''), AIMessage (py ''hello'')],
                  py ''s2'' \<mapsto> [HumanMessage (py ''hi''), AIMessage (py ''ok'')]]\<rparr>"

section \<open>Notions of the specification\<close>

text \<open>
  The pattern the specification gives for a session id, in its words: one to a hundred
  characters, each an ASCII letter, an ASCII digit, a hyphen or an underscore.
\<close>

definition spec_session_id_ok :: "pystr \<Rightarrow> bool" where
  "spec_session_id_ok s =
     (1 \<le> length s \<and> length s \<le> 100 \<and> list_all (\<lambda>c. ascii_alnum c \<or> c = 45 \<or> c = 95) s)"



text \<open>The two dictionaries of the store have the same keys.\<close>

definition store_inv :: "app_state \<Rightarrow> bool" where
  "store_inv st = (dom (agent_chains st) = dom (memories st))"

text \<open>Any number of chat calls, one after the other, each with its own request and key.\<close>

fun chats :: "env \<Rightarrow> (ChatRequest \<times> pystr) list \<Rightarrow> app_state \<Rightarrow> app_state" where
  "chats E [] st = st"
| "chats E ((request, api_key) # cs) st = chats E cs (snd (chat E request api_key st))"

text \<open>What each of these calls answers, in the same order.\<close>

fun chat_results ::
  "env \<Rightarrow> (ChatRequest \<times> pystr) list \<Rightarrow> app_state \<Rightarrow> (http_error + ChatResponse) list"
where
  "chat_results E [] st = []"
| "chat_results E ((request, api_key) # cs) st =
     fst (chat E request api_key st) # chat_results E cs (snd (chat E request api_key st))"

text \<open>The exchange of one call: its message, then the reply it returned.\<close>

definition exchange :: "ChatRequest \<times> pystr \<Rightarrow> ChatResponse \<Rightarrow> BaseMessage list" where
  "exchange call r = [HumanMessage (message (fst call)), AIMessage (response r)]"

section \<open>Evaluation of the samples\<close>

lemma get_api_key_bearer: "get_api_key (bearer (py ''AIkey'')) = Inr (py ''AIkey'')"
  by (simp add: get_api_key_def bearer_def startswith_def py_def)

lemma security_bearer: "security E (Some (py ''Bearer AIkey'')) = bearer (py ''AIkey'')"
  by (simp add: security_def get_authorization_scheme_param_def partition_space_def lower_def
        latin1_lower_def py_def bearer_def)

lemma post_init_session_fields:
  "post_init_session E authorization (JSON (Some sid)) st =
     run_init_session E (security E authorization) sid st"
  by (simp add: post_init_session_def)

lemma post_chat_fields:
  "post_chat E authorization (JSON (Some msg, Some sid)) st =
     run_chat E (security E authorization) msg sid st"
  by (simp add: post_chat_def)

lemma chat_more:
  "chat answering_env more_request (py ''AIother'') one_session =
     (Inr (ChatResponse (py ''ok'') (py ''s1'') (py ''success'')), after_more)"
  by (simp add: chat_def Let_def more_request_def one_session_def after_more_def
        answering_env_def py_def invoke_def load_memory_variables_def save_context_def)

lemma chat_first:
  "chat answering_env (ChatRequest (py ''hi'') (py ''s2'')) (py ''AIkey'') initial_state =
     (Inr (ChatResponse (py ''ok'') (py ''s2'') (py ''success'')), first_exchange)"
  by (simp add: chat_def Let_def initial_state_def first_exchange_def get_diet_agent_chain_def
        answering_env_def py_def invoke_def load_memory_variables_def save_context_def)

section \<open>Chat\<close>

text \<open>
  C1. In a session that exists, with transcript \<open>T\<close>, a chat call that succeeds returns
  the reply the session's chain gave for \<open>T\<close> and the submitted text, and leaves the
  transcript \<open>T\<close> followed by the human message carrying the submitted text and the AI
  message carrying that reply, in this order: two more messages than before. The text it
  returns is the content of the last message. No other transcript changes, and no
  chain.
\<close>

theorem chat_appends_exchange:
  assumes "agent_chains st (session_id request) = Some c"
    and "memories st (session_id request) = Some T"
    and "chat E request api_key st = (Inr r, st')"
  shows "invoke E c (load_memory_variables T) (message request) = Inr (response r)
       \<and> memories st' (session_id request)
           = Some (T @ [HumanMessage (message request), AIMessage (response r)])
       \<and> (\<exists>T'. memories st' (session_id request) = Some T' \<and> length T' = length T + 2
              \<and> content (last T') = response r)
       \<and> (\<forall>s. s \<noteq> session_id request \<longrightarrow> memories st' s = memories st s)
       \<and> agent_chains st' = agent_chains st"
  using assms
  by (auto simp: chat_def Let_def load_memory_variables_def save_context_def
           split: sum.splits option.splits)

theorem chat_appends_exchange_witness:
  "agent_chains one_session (session_id more_request) = Some (Chain (py ''AIkey''))
   \<and> memories one_session (session_id more_request)
       = Some [HumanMessage (py ''hi''), AIMessage (py ''hello'')]
   \<and> chat answering_env more_request (py ''AIother'') one_session =
       (Inr (ChatResponse (py ''ok'') (py ''s1'') (py ''success'')), after_more)
   \<and> invoke answering_env (Chain (py ''AIkey''))
         (load_memory_variables [HumanMessage (py ''hi''), AIMessage (py ''hello'')])
         (message more_request) = Inr (py ''ok'')
   \<and> memories after_more (session_id more_request)
       = Some [HumanMessage (py ''hi''), AIMessage (py ''hello''),
               HumanMessage (py ''more''), AIMessage (py ''ok'')]
   \<and> agent_chains after_more = agent_chains one_session"
proof -
  have a: "agent_chains one_session (session_id more_request) = Some (Chain (py ''AIkey''))"
    by (simp add: one_session_def more_request_def)
  have b: "memories one_session (session_id more_request)
             = Some [HumanMessage (py ''hi''), AIMessage (py ''hello'')]"
    by (simp add: one_session_def more_request_def)
  from chat_appends_exchange [OF a b chat_more] a b chat_more
  show ?thesis by (simp add: more_request_def)
qed

text \<open>
  C2. In a session that exists, a chat call whose model invocation raises leaves the
  whole state as it was, the transcript included, and the caller receives the error of
  status 500 whose detail is \<open>Failed to generate response: \<close> followed by the text of
  the exception.
\<close>

theorem chat_failure_leaves_state:
  assumes "agent_chains st (session_id request) = Some c"
    and "memories st (session_id request) = Some T"
    and "invoke E c (load_memory_variables T) (message request) = Inl e"
  shows "chat E request api_key st =
           (Inl (HTTPException 500 (py ''Failed to generate response: '' @ e)), st)"
  using assms by (simp add: chat_def Let_def)

theorem chat_failure_leaves_state_witness:
  "agent_chains one_session (session_id more_request) = Some (Chain (py ''AIkey''))
   \<and> memories one_session (session_id more_request)
       = Some [HumanMessage (py ''hi''), AIMessage (py ''hello'')]
   \<and> invoke failing_env (Chain (py ''AIkey''))
        (load_memory_variables [HumanMessage (py ''hi''), AIMessage (py ''hello'')])
        (message more_request) = Inl (py ''quota exceeded'')
   \<and> chat failing_env more_request (py ''AIother'') one_session =
       (Inl (HTTPException 500 (py ''Failed to generate response: '' @ py ''quota exceeded'')),
        one_session)"
proof -
  have a: "agent_chains one_session (session_id more_request) = Some (Chain (py ''AIkey''))"
    by (simp add: one_session_def more_request_def)
  have b: "memories one_session (session_id more_request)
             = Some [HumanMessage (py ''hi''), AIMessage (py ''hello'')]"
    by (simp add: one_session_def more_request_def)
  have c: "invoke failing_env (Chain (py ''AIkey''))
        (load_memory_variables [HumanMessage (py ''hi''), AIMessage (py ''hello'')])
        (message more_request) = Inl (py ''quota exceeded'')"
    by (simp add: invoke_def failing_env_def)
  from chat_failure_leaves_state [OF a b c, of "py ''AIother''"] a b c
  show ?thesis by simp
qed

section \<open>Session ids\<close>

lemma invalid_session_id_no_request:
  assumes "sid = [] \<or> 100 < length sid
           \<or> (\<exists>c \<in> set sid. c \<noteq> 45 \<and> c \<noteq> 95 \<and> \<not> isalnum_char E c)"
  shows "make_InitSessionRequest E sid = Inl RequestValidationError"
    and "make_ChatRequest E msg sid = Inl RequestValidationError"
  using assms
  by (auto simp: make_InitSessionRequest_def make_ChatRequest_def validate_session_id_def
        isalnum_def replace_def list_all_iff)

text \<open>
  C3, as the code has it. A session id that is empty, longer than a hundred characters,
  or has a character that is neither a hyphen nor an underscore nor alphanumeric for
  \<open>str.isalnum\<close> never reaches the handlers of the init-session and chat routes: the
  state is returned as it was, and the caller receives the validation error when the
  credential passes \<open>get_api_key\<close>, the error of \<open>get_api_key\<close> otherwise. This holds
  for whatever the \<open>security\<close> dependency can return, and so for every
  \<open>Authorization\<close> header of a request.
\<close>

theorem invalid_session_id_rejected:
  assumes "sid = [] \<or> 100 < length sid
           \<or> (\<exists>c \<in> set sid. c \<noteq> 45 \<and> c \<noteq> 95 \<and> \<not> isalnum_char E c)"
  shows "run_init_session E creds sid st =
           (Inl (case get_api_key creds of Inl err \<Rightarrow> err | Inr k \<Rightarrow> RequestValidationError), st)
       \<and> run_chat E creds msg sid st =
           (Inl (case get_api_key creds of Inl err \<Rightarrow> err | Inr k \<Rightarrow> RequestValidationError), st)
       \<and> post_init_session E authorization (JSON (Some sid)) st =
           (Inl (case get_api_key (security E authorization) of
                   Inl err \<Rightarrow> err | Inr k \<Rightarrow> RequestValidationError), st)
       \<and> post_chat E authorization (JSON (message_field, Some sid)) st =
           (Inl (case get_api_key (security E authorization) of
                   Inl err \<Rightarrow> err | Inr k \<Rightarrow> RequestValidationError), st)"
  using invalid_session_id_no_request [OF assms]
  by (simp add: run_init_session_def run_chat_def post_init_session_def post_chat_def
        split: sum.splits option.splits)

theorem invalid_session_id_rejected_witness:
  "(py ''a@b'' = [] \<or> 100 < length (py ''a@b'')
      \<or> (\<exists>c \<in> set (py ''a@b''). c \<noteq> 45 \<and> c \<noteq> 95 \<and> \<not> isalnum_char answering_env c))
   \<and> run_init_session answering_env (bearer (py ''AIkey'')) (py ''a@b'') one_session =
       (Inl RequestValidationError, one_session)
   \<and> run_chat answering_env (bearer (py ''AIkey'')) (py ''hi'') (py ''a@b'') one_session =
       (Inl RequestValidationError, one_session)
   \<and> run_chat answering_env None (py ''hi'') (py ''a@b'') one_session =
       (Inl (HTTPException 401
          (py ''API key required. Provide Gemini API key in Authorization header as Bearer token'')),
        one_session)
   \<and> post_chat answering_env (Some (py ''Bearer AIkey''))
         (JSON (Some (py ''hi''), Some (py ''a@b''))) one_session =
       (Inl RequestValidationError, one_session)
   \<and> post_init_session answering_env (Some (py ''Bearer AIkey''))
         (JSON (Some (py ''a@b''))) one_session =
       (Inl RequestValidationError, one_session)"
proof -
  have h: "py ''a@b'' = [] \<or> 100 < length (py ''a@b'')
      \<or> (\<exists>c \<in> set (py ''a@b''). c \<noteq> 45 \<and> c \<noteq> 95 \<and> \<not> isalnum_char answering_env c)"
    by (simp add: py_def isalnum_char_def ascii_alnum_def)
  have n: "get_api_key None = Inl (HTTPException 401
          (py ''API key required. Provide Gemini API key in Authorization header as Bearer token''))"
    by (simp add: get_api_key_def)
  from invalid_session_id_rejected
         [OF h, of "bearer (py ''AIkey'')" one_session "py ''hi''"
            "Some (py ''Bearer AIkey'')" "Some (py ''hi'')"]
    invalid_session_id_rejected [OF h, of None one_session "py ''hi''"] h
  show ?thesis by (simp add: get_api_key_bearer security_bearer n)
qed

text \<open>
  C3, as the specification has it, fails twice. The id made of the one character
  \<open>U+00E9\<close> is outside the pattern, and the chat route accepts it and creates the
  session; the id \<open>a@b\<close> is outside the pattern, and the clear-session route, which
  checks nothing, answers \<open>not_found\<close>.
\<close>

theorem invalid_session_id_counterexample:
  "\<not> spec_session_id_ok [233]
   \<and> post_chat answering_env (Some (py ''Bearer AIkey'')) (JSON (Some (py ''hi''), Some [233]))
         initial_state =
       (Inr (ChatResponse (py ''ok'') [233] (py ''success'')),
        \<lparr>agent_chains = [[233] \<mapsto> Chain (py ''AIkey'')],
         memories = [[233] \<mapsto> [HumanMessage (py ''hi''), AIMessage (py ''ok'')]]\<rparr>)
   \<and> \<not> spec_session_id_ok (py ''a@b'')
   \<and> delete_clear_session answering_env (py ''a@b'') initial_state =
       (Inr (SessionResponse (py ''a@b'') (py ''not_found'') (py ''Session not found'')),
        initial_state)"
  by (simp add: post_chat_fields security_bearer)
     (simp add: spec_session_id_ok_def ascii_alnum_def run_chat_def bearer_def get_api_key_def
        startswith_def py_def make_ChatRequest_def validate_session_id_def isalnum_def
        replace_def isalnum_char_def latin1_alnum_def chat_def Let_def initial_state_def
        get_diet_agent_chain_def answering_env_def invoke_def load_memory_variables_def
        save_context_def delete_clear_session_def clear_session_def)

section \<open>Automatic initialization\<close>

lemma accepted_chat_request:
  assumes "make_ChatRequest E m sid = Inr request"
  shows "request = ChatRequest m sid"
    and "make_InitSessionRequest E sid = Inr (InitSessionRequest sid)"
  using assms
  by (auto simp: make_ChatRequest_def make_InitSessionRequest_def validate_session_id_def
        split: if_splits option.splits)

lemma chat_after_initialize:
  assumes "agent_chains st sid = None"
  shows "chat E (ChatRequest m sid) api_key
           (snd (initialize_session E (InitSessionRequest sid) api_key st))
         = chat E (ChatRequest m sid) api_key st"
  using assms
  by (auto simp: chat_def initialize_session_def Let_def get_diet_agent_chain_def
        split: option.splits sum.splits)

lemma run_chat_after_run_init_session:
  assumes "agent_chains st sid = None"
    and ok: "make_ChatRequest E m sid = Inr request"
  shows "run_chat E creds m sid (snd (run_init_session E creds sid st)) = run_chat E creds m sid st"
proof (cases "get_api_key creds")
  case (Inl err)
  then show ?thesis by (simp add: run_chat_def run_init_session_def)
next
  case (Inr k)
  then show ?thesis
    using accepted_chat_request [OF ok] chat_after_initialize [OF assms(1), of E m k]
    by (simp add: run_chat_def run_init_session_def ok)
qed

text \<open>
  C4. For a session id that \<open>agent_chains\<close> does not have, a chat call returns the same
  response and leaves the same state as the same call made after \<open>initialize_session\<close>
  with the same id and key; the same holds of the two routes for any request the chat
  route accepts. When the model object can be built, the call leaves the session in
  the store; when the model also answers, the answer is returned and the transcript is
  the one exchange.
\<close>

theorem chat_auto_initialize_equiv:
  assumes "agent_chains st sid = None"
  shows "chat E (ChatRequest m sid) api_key st =
           chat E (ChatRequest m sid) api_key
             (snd (initialize_session E (InitSessionRequest sid) api_key st))
       \<and> (\<forall>request. make_ChatRequest E m sid = Inr request \<longrightarrow>
            run_chat E creds m sid st =
              run_chat E creds m sid (snd (run_init_session E creds sid st)))
       \<and> (\<forall>request. make_ChatRequest E m sid = Inr request \<longrightarrow>
            post_chat E authorization (JSON (Some m, Some sid)) st =
              post_chat E authorization (JSON (Some m, Some sid))
                (snd (post_init_session E authorization (JSON (Some sid)) st)))
       \<and> (llm_construct E api_key = None \<longrightarrow>
            agent_chains (snd (chat E (ChatRequest m sid) api_key st)) sid = Some (Chain api_key))
       \<and> (\<forall>reply. llm_construct E api_key = None \<and> llm_invoke E api_key [] m = Inr reply \<longrightarrow>
            chat E (ChatRequest m sid) api_key st =
              (Inr (ChatResponse reply sid (py ''success'')),
               st\<lparr>agent_chains := (agent_chains st)(sid \<mapsto> Chain api_key),
                  memories := (memories st)(sid \<mapsto> [HumanMessage m, AIMessage reply])\<rparr>))"
proof (intro conjI allI impI)
  show "chat E (ChatRequest m sid) api_key st =
           chat E (ChatRequest m sid) api_key
             (snd (initialize_session E (InitSessionRequest sid) api_key st))"
    using chat_after_initialize [OF assms] by simp
next
  fix request
  assume ok: "make_ChatRequest E m sid = Inr request"
  show "run_chat E creds m sid st =
          run_chat E creds m sid (snd (run_init_session E creds sid st))"
    using run_chat_after_run_init_session [OF assms ok] by simp
next
  fix request
  assume ok: "make_ChatRequest E m sid = Inr request"
  show "post_chat E authorization (JSON (Some m, Some sid)) st =
          post_chat E authorization (JSON (Some m, Some sid))
            (snd (post_init_session E authorization (JSON (Some sid)) st))"
    using run_chat_after_run_init_session [OF assms ok, of "security E authorization"]
    by (simp add: post_chat_fields post_init_session_fields)
next
  assume "llm_construct E api_key = None"
  then show "agent_chains (snd (chat E (ChatRequest m sid) api_key st)) sid = Some (Chain api_key)"
    using assms
    by (auto simp: chat_def Let_def get_diet_agent_chain_def split: option.splits sum.splits)
next
  fix reply
  assume "llm_construct E api_key = None \<and> llm_invoke E api_key [] m = Inr reply"
  then show "chat E (ChatRequest m sid) api_key st =
              (Inr (ChatResponse reply sid (py ''success'')),
               st\<lparr>agent_chains := (agent_chains st)(sid \<mapsto> Chain api_key),
                  memories := (memories st)(sid \<mapsto> [HumanMessage m, AIMessage reply])\<rparr>)"
    using assms
    by (simp add: chat_def Let_def get_diet_agent_chain_def invoke_def
          load_memory_variables_def save_context_def)
qed

theorem chat_auto_initialize_equiv_witness:
  "agent_chains initial_state (py ''s2'') = None
   \<and> make_ChatRequest answering_env (py ''hi'') (py ''s2'') = Inr (ChatRequest (py ''hi'') (py ''s2''))
   \<and> llm_construct answering_env (py ''AIkey'') = None
   \<and> llm_invoke answering_env (py ''AIkey'') [] (py ''hi'') = Inr (py ''ok'')
   \<and> chat answering_env (ChatRequest (py ''hi'') (py ''s2'')) (py ''AIkey'') initial_state =
       (Inr (ChatResponse (py ''ok'') (py ''s2'') (py ''success'')), first_exchange)
   \<and> chat answering_env (ChatRequest (py ''hi'') (py ''s2'')) (py ''AIkey'')
         (snd (initialize_session answering_env (InitSessionRequest (py ''s2'')) (py ''AIkey'')
                 initial_state)) =
       (Inr (ChatResponse (py ''ok'') (py ''s2'') (py ''success'')), first_exchange)
   \<and> run_chat answering_env (bearer (py ''AIkey'')) (py ''hi'') (py ''s2'')
         (snd (run_init_session answering_env (bearer (py ''AIkey'')) (py ''s2'') initial_state)) =
       run_chat answering_env (bearer (py ''AIkey'')) (py ''hi'') (py ''s2'') initial_state
   \<and> post_chat answering_env (Some (py ''Bearer AIkey'')) (JSON (Some (py ''hi''), Some (py ''s2'')))
         (snd (post_init_session answering_env (Some (py ''Bearer AIkey''))
                 (JSON (Some (py ''s2''))) initial_state)) =
       post_chat answering_env (Some (py ''Bearer AIkey'')) (JSON (Some (py ''hi''), Some (py ''s2'')))
         initial_state
   \<and> agent_chains first_exchange (py ''s2'') = Some (Chain (py ''AIkey''))"
proof -
  have a: "agent_chains initial_state (py ''s2'') = None"
    by (simp add: initial_state_def)
  have b: "make_ChatRequest answering_env (py ''hi'') (py ''s2'')
             = Inr (ChatRequest (py ''hi'') (py ''s2''))"
    by (simp add: make_ChatRequest_def validate_session_id_def isalnum_def replace_def
          isalnum_char_def ascii_alnum_def py_def)
  have c: "llm_construct answering_env (py ''AIkey'') = None"
    by (simp add: answering_env_def)
  have d: "llm_invoke answering_env (py ''AIkey'') [] (py ''hi'') = Inr (py ''ok'')"
    by (simp add: answering_env_def)
  note t = chat_auto_initialize_equiv
             [OF a, of answering_env "py ''hi''" "py ''AIkey''" "bearer (py ''AIkey'')"
                "Some (py ''Bearer AIkey'')"]
  have e: "chat answering_env (ChatRequest (py ''hi'') (py ''s2'')) (py ''AIkey'')
         (snd (initialize_session answering_env (InitSessionRequest (py ''s2'')) (py ''AIkey'')
                 initial_state)) =
       chat answering_env (ChatRequest (py ''hi'') (py ''s2'')) (py ''AIkey'') initial_state"
    using conjunct1 [OF t] by simp
  have f: "run_chat answering_env (bearer (py ''AIkey'')) (py ''hi'') (py ''s2'')
         (snd (run_init_session answering_env (bearer (py ''AIkey'')) (py ''s2'') initial_state)) =
       run_chat answering_env (bearer (py ''AIkey'')) (py ''hi'') (py ''s2'') initial_state"
    using conjunct1 [OF conjunct2 [OF t]] b by simp
  have g: "agent_chains first_exchange (py ''s2'') = Some (Chain (py ''AIkey''))"
    by (simp add: first_exchange_def)
  have h: "post_chat answering_env (Some (py ''Bearer AIkey''))
         (JSON (Some (py ''hi''), Some (py ''s2'')))
         (snd (post_init_session answering_env (Some (py ''Bearer AIkey''))
                 (JSON (Some (py ''s2''))) initial_state)) =
       post_chat answering_env (Some (py ''Bearer AIkey'')) (JSON (Some (py ''hi''), Some (py ''s2'')))
         initial_state"
    using conjunct1 [OF conjunct2 [OF conjunct2 [OF t]]] b by simp
  show ?thesis
    using a b c d e f g h by (simp add: chat_first)
qed

section \<open>Initialize\<close>

lemma chat_keeps_session:
  "agent_chains st sid = Some c \<Longrightarrow> agent_chains (snd (chat E request api_key st)) sid = Some c"
  by (auto simp: chat_def Let_def split: option.splits sum.splits prod.splits)

lemma chats_keep_session:
  "agent_chains st sid = Some c \<Longrightarrow> agent_chains (chats E cs st) sid = Some c"
  by (induction cs arbitrary: st) (auto simp: chat_keeps_session)

lemma initialize_session_present:
  "initialize_session E (InitSessionRequest sid) k st = (Inr r, st1)
     \<Longrightarrow> agent_chains st1 sid \<noteq> None"
  by (auto simp: initialize_session_def Let_def split: option.splits sum.splits prod.splits)

text \<open>
  C5. After an \<open>initialize_session\<close> that succeeded and any number of chat calls, on
  this session or on others, \<open>initialize_session\<close> with the same id, whatever the key,
  answers \<open>exists\<close> as a response and returns the state as it was: no transcript is
  reset.
\<close>

theorem initialize_session_idempotent:
  assumes "initialize_session E (InitSessionRequest sid) k st = (Inr r, st1)"
  shows "initialize_session E (InitSessionRequest sid) k' (chats E cs st1) =
           (Inr (SessionResponse sid (py ''exists'') (py ''Session already initialized'')),
            chats E cs st1)"
proof -
  from initialize_session_present [OF assms]
  obtain c where "agent_chains st1 sid = Some c" by auto
  then have "agent_chains (chats E cs st1) sid = Some c"
    by (rule chats_keep_session)
  then show ?thesis
    by (simp add: initialize_session_def)
qed

theorem initialize_session_idempotent_witness:
  "initialize_session answering_env (InitSessionRequest (py ''s2'')) (py ''AIkey'') initial_state =
     (Inr (SessionResponse (py ''s2'') (py ''initialized'')
            (py ''Session successfully initialized. You can now start chatting!'')),
      only_initialized)
   \<and> chats answering_env [(ChatRequest (py ''hi'') (py ''s2''), py ''AIkey'')] only_initialized
       = first_exchange
   \<and> initialize_session answering_env (InitSessionRequest (py ''s2'')) (py ''AIother'')
       first_exchange =
     (Inr (SessionResponse (py ''s2'') (py ''exists'') (py ''Session already initialized'')),
      first_exchange)"
proof -
  have a: "initialize_session answering_env (InitSessionRequest (py ''s2'')) (py ''AIkey'')
             initial_state =
     (Inr (SessionResponse (py ''s2'') (py ''initialized'')
            (py ''Session successfully initialized. You can now start chatting!'')),
      only_initialized)"
    by (simp add: initialize_session_def Let_def initial_state_def only_initialized_def
          get_diet_agent_chain_def answering_env_def)
  have b: "chats answering_env [(ChatRequest (py ''hi'') (py ''s2''), py ''AIkey'')]
             only_initialized = first_exchange"
    by (simp add: chat_def Let_def only_initialized_def first_exchange_def answering_env_def
          invoke_def load_memory_variables_def save_context_def)
  from initialize_session_idempotent
         [OF a, of "py ''AIother''" "[(ChatRequest (py ''hi'') (py ''s2''), py ''AIkey'')]"] a b
  show ?thesis by simp
qed

section \<open>Clear\<close>

text \<open>
  C6. \<open>clear_session\<close> on an id that \<open>agent_chains\<close> does not have answers \<open>not_found\<close>
  as a response and returns the state as it was. On an id that it has, the state left
  behind has the id in neither dictionary, so that the id is not listed and a second
  \<open>clear_session\<close> answers \<open>not_found\<close>; every other id keeps its chain and its
  transcript; and the answer is \<open>cleared\<close> when \<open>memories\<close> had the id too.
\<close>

theorem clear_session_removes:
  "(agent_chains st sid = None \<longrightarrow>
      clear_session E sid st =
        (Inr (SessionResponse sid (py ''not_found'') (py ''Session not found'')), st))
   \<and> (agent_chains st sid \<noteq> None \<longrightarrow>
        agent_chains (snd (clear_session E sid st)) sid = None
      \<and> memories (snd (clear_session E sid st)) sid = None
      \<and> sid \<notin> list_sessions (snd (clear_session E sid st))
      \<and> fst (clear_session E sid (snd (clear_session E sid st))) =
          Inr (SessionResponse sid (py ''not_found'') (py ''Session not found''))
      \<and> (\<forall>s. s \<noteq> sid \<longrightarrow>
            agent_chains (snd (clear_session E sid st)) s = agent_chains st s
          \<and> memories (snd (clear_session E sid st)) s = memories st s)
      \<and> (memories st sid \<noteq> None \<longrightarrow>
           fst (clear_session E sid st) =
             Inr (SessionResponse sid (py ''cleared'') (py ''Session cleared successfully''))))"
  by (auto simp: clear_session_def Let_def list_sessions_def split: option.splits)

theorem clear_session_removes_witness:
  "agent_chains initial_state (py ''s1'') = None
   \<and> clear_session answering_env (py ''s1'') initial_state =
       (Inr (SessionResponse (py ''s1'') (py ''not_found'') (py ''Session not found'')),
        initial_state)
   \<and> agent_chains two_sessions (py ''s1'') \<noteq> None
   \<and> memories two_sessions (py ''s1'') \<noteq> None
   \<and> py ''s2'' \<noteq> py ''s1''
   \<and> fst (clear_session answering_env (py ''s1'') two_sessions) =
       Inr (SessionResponse (py ''s1'') (py ''cleared'') (py ''Session cleared successfully''))
   \<and> agent_chains (snd (clear_session answering_env (py ''s1'') two_sessions)) (py ''s1'') = None
   \<and> memories (snd (clear_session answering_env (py ''s1'') two_sessions)) (py ''s1'') = None
   \<and> agent_chains (snd (clear_session answering_env (py ''s1'') two_sessions)) (py ''s2'')
       = Some (Chain (py ''AIkey''))
   \<and> memories (snd (clear_session answering_env (py ''s1'') two_sessions)) (py ''s2'')
       = Some [HumanMessage (py ''hi''), AIMessage (py ''ok'')]
   \<and> fst (clear_session answering_env (py ''s1'')
            (snd (clear_session answering_env (py ''s1'') two_sessions))) =
       Inr (SessionResponse (py ''s1'') (py ''not_found'') (py ''Session not found''))"
proof -
  have a: "agent_chains initial_state (py ''s1'') = None"
    by (simp add: initial_state_def)
  have b: "agent_chains two_sessions (py ''s1'') \<noteq> None"
    by (simp add: two_sessions_def py_def)
  have c: "memories two_sessions (py ''s1'') \<noteq> None"
    by (simp add: two_sessions_def py_def)
  have d: "py ''s2'' \<noteq> py ''s1''"
    by (simp add: py_def)
  have e: "agent_chains two_sessions (py ''s2'') = Some (Chain (py ''AIkey''))"
    by (simp add: two_sessions_def)
  have f: "memories two_sessions (py ''s2'') = Some [HumanMessage (py ''hi''), AIMessage (py ''ok'')]"
    by (simp add: two_sessions_def)
  from clear_session_removes [of initial_state "py ''s1''" answering_env]
       clear_session_removes [of two_sessions "py ''s1''" answering_env] a b c d e f
  show ?thesis by simp
qed

section \<open>Error responses\<close>

text \<open>
  C7. A chat call whose model invocation raises an exception with the text
  \<open>quota exceeded\<close>: the handler's own \<open>except\<close> clause answers before
  \<open>global_exception_handler\<close> can, and the detail the caller receives ends with the text
  of the exception; it is not the fixed detail of \<open>global_exception_handler\<close>.
\<close>

theorem chat_detail_carries_exception_text:
  "run_chat failing_env (bearer (py ''AIkey'')) (py ''more'') (py ''s1'') one_session =
     (Inl (HTTPException 500 (py ''Failed to generate response: '' @ py ''quota exceeded'')),
      one_session)
   \<and> py ''Failed to generate response: '' @ py ''quota exceeded''
       \<noteq> json_detail (global_exception_handler (py ''quota exceeded''))
   \<and> post_chat failing_env (Some (py ''Bearer AIkey''))
         (JSON (Some (py ''more''), Some (py ''s1''))) one_session =
     (Inl (HTTPException 500 (py ''Failed to generate response: '' @ py ''quota exceeded'')),
      one_session)"
  by (simp add: post_chat_fields security_bearer)
     (simp add: run_chat_def bearer_def get_api_key_def
        startswith_def py_def make_ChatRequest_def validate_session_id_def isalnum_def
        replace_def isalnum_char_def ascii_alnum_def chat_def Let_def one_session_def
        failing_env_def invoke_def load_memory_variables_def global_exception_handler_def)

section \<open>Credentials\<close>




section \<open>The two dictionaries\<close>

lemma store_inv_iff:
  "store_inv st = (\<forall>s. (agent_chains st s = None) = (memories st s = None))"
proof
  assume "store_inv st"
  then have "dom (agent_chains st) = dom (memories st)"
    by (simp add: store_inv_def)
  then show "\<forall>s. (agent_chains st s = None) = (memories st s = None)"
    by (metis domIff)
next
  assume h: "\<forall>s. (agent_chains st s = None) = (memories st s = None)"
  show "store_inv st"
    unfolding store_inv_def by (rule set_eqI) (simp add: domIff h)
qed

lemma store_inv_initial_state: "store_inv initial_state"
  by (simp add: store_inv_def initial_state_def)

lemma store_inv_initialize:
  "store_inv st \<Longrightarrow> store_inv (snd (initialize_session E request k st))"
  unfolding store_inv_iff
  by (auto simp: initialize_session_def Let_def split: option.splits sum.splits)

lemma store_inv_chat:
  "store_inv st \<Longrightarrow> store_inv (snd (chat E request k st))"
  unfolding store_inv_iff
  by (auto simp: chat_def Let_def split: option.splits sum.splits)

lemma store_inv_clear:
  "store_inv st \<Longrightarrow> store_inv (snd (clear_session E sid st))"
  unfolding store_inv_iff
  by (auto simp: clear_session_def Let_def split: option.splits sum.splits)

text \<open>
  C10. When \<open>agent_chains\<close> and \<open>memories\<close> have the same keys, they have the same keys
  after \<open>initialize_session\<close>, after \<open>chat\<close> (which creates a session that is not there)
  and after \<open>clear_session\<close>, for every request, key and outcome, and so after each of
  the three routes. The empty store, in which the server starts, has the property.
\<close>

theorem store_key_sets_agree:
  assumes "store_inv st"
  shows "store_inv (snd (initialize_session E init_request k st))
       \<and> store_inv (snd (chat E chat_request k st))
       \<and> store_inv (snd (clear_session E sid st))
       \<and> store_inv (snd (run_init_session E creds sid st))
       \<and> store_inv (snd (run_chat E creds msg sid st))
       \<and> store_inv (snd (delete_clear_session E sid st))
       \<and> store_inv initial_state
       \<and> store_inv (snd (post_init_session E authorization init_body st))
       \<and> store_inv (snd (post_chat E authorization chat_body st))"
  using assms store_inv_initialize store_inv_chat store_inv_clear store_inv_initial_state
  by (auto simp: run_init_session_def run_chat_def delete_clear_session_def
        post_init_session_def post_chat_def
        split: sum.splits request_body.splits option.splits prod.splits)

theorem store_key_sets_agree_witness:
  "store_inv one_session
   \<and> snd (chat answering_env (ChatRequest (py ''hi'') (py ''s2'')) (py ''AIkey'') one_session)
       = two_sessions
   \<and> store_inv two_sessions
   \<and> store_inv (snd (initialize_session answering_env (InitSessionRequest (py ''s3''))
                       (py ''AIkey'') one_session))
   \<and> store_inv (snd (clear_session answering_env (py ''s1'') one_session))
   \<and> store_inv (snd (run_chat answering_env (bearer (py ''AIkey'')) (py ''hi'') (py ''s1'')
                       one_session))
   \<and> store_inv (snd (post_chat answering_env (Some (py ''Bearer AIkey''))
                       (JSON (Some (py ''hi''), Some (py ''s2''))) one_session))"
proof -
  have a: "store_inv one_session"
    by (simp add: store_inv_def one_session_def)
  have b: "snd (chat answering_env (ChatRequest (py ''hi'') (py ''s2'')) (py ''AIkey'')
                  one_session) = two_sessions"
    by (simp add: chat_def Let_def one_session_def two_sessions_def py_def
          get_diet_agent_chain_def answering_env_def invoke_def load_memory_variables_def
          save_context_def)
  from store_key_sets_agree
         [OF a, of answering_env "InitSessionRequest (py ''s3'')" "py ''AIkey''"
            "ChatRequest (py ''hi'') (py ''s2'')" "py ''s1''" "bearer (py ''AIkey'')" "py ''hi''"
            "Some (py ''Bearer AIkey'')" "JSON (Some (py ''s3''))"
            "JSON (Some (py ''hi''), Some (py ''s2''))"]
       a b
  show ?thesis by simp
qed

section \<open>Concurrent chat calls\<close>

lemma chat_success:
  assumes "agent_chains st (session_id request) = Some c"
    and "memories st (session_id request) = Some T"
    and "fst (chat E request api_key st) = Inr r"
  shows "agent_chains (snd (chat E request api_key st)) (session_id request) = Some c"
    and "memories (snd (chat E request api_key st)) (session_id request)
           = Some (T @ exchange (request, api_key) r)"
  using assms
  by (auto simp: chat_def Let_def load_memory_variables_def save_context_def exchange_def
        split: sum.splits option.splits)

lemma length_chat_results: "length (chat_results E cs st) = length cs"
  by (induction cs arbitrary: st) auto

lemma chats_transcript:
  assumes "agent_chains st sid = Some c"
    and "memories st sid = Some T"
    and "list_all (\<lambda>call. session_id (fst call) = sid) cs"
    and "chat_results E cs st = map Inr rs"
  shows "memories (chats E cs st) sid = Some (T @ concat (map2 exchange cs rs))"
  using assms
proof (induction cs arbitrary: st T rs)
  case Nil
  then show ?case by simp
next
  case (Cons call cs)
  obtain request api_key where call: "call = (request, api_key)"
    by (cases call)
  from Cons.prems(4) call obtain r rs' where rs: "rs = r # rs'"
    and first: "fst (chat E request api_key st) = Inr r"
    and rest: "chat_results E cs (snd (chat E request api_key st)) = map Inr rs'"
    by (cases rs) auto
  from Cons.prems(3) call have sid: "session_id request = sid"
    and others: "list_all (\<lambda>call. session_id (fst call) = sid) cs"
    by auto
  have c': "agent_chains (snd (chat E request api_key st)) sid = Some c"
    using chat_success(1) [of st request c T E api_key r] Cons.prems(1,2) first sid by simp
  have T': "memories (snd (chat E request api_key st)) sid
              = Some (T @ exchange (request, api_key) r)"
    using chat_success(2) [of st request c T E api_key r] Cons.prems(1,2) first sid by simp
  from Cons.IH [OF c' T' others rest] show ?case
    by (simp add: call rs)
qed

text \<open>
  C9. \<open>chat\<close> is an \<open>async\<close> function without an \<open>await\<close>: a call runs from its first
  line to its last before another call starts, so that N concurrent calls are N calls
  one after the other, in some order. For a session that exists, with transcript \<open>T\<close>,
  and any list of calls on this session, in whatever order, that all succeed: the
  transcript left behind is \<open>T\<close> followed by the exchanges of the calls in the order in
  which they ran, each the human message of the call followed at once by the AI message
  with the reply that call returned; there are as many replies as calls, and the
  transcript is twice that number longer than \<open>T\<close>.
\<close>

theorem concurrent_chats_append_pairs:
  assumes "agent_chains st sid = Some c"
    and "memories st sid = Some T"
    and "list_all (\<lambda>call. session_id (fst call) = sid) cs"
    and "chat_results E cs st = map Inr rs"
  shows "memories (chats E cs st) sid = Some (T @ concat (map2 exchange cs rs))
       \<and> length rs = length cs
       \<and> (\<exists>T'. memories (chats E cs st) sid = Some T'
              \<and> length T' = length T + 2 * length cs)"
proof -
  have n: "length rs = length cs"
    using length_chat_results [of E cs st] assms(4) by simp
  have "length (concat (map2 exchange cs rs)) = 2 * length cs"
    using n [symmetric] by (induction cs rs rule: list_induct2) (auto simp: exchange_def)
  then show ?thesis
    using chats_transcript [OF assms] n by simp
qed

theorem concurrent_chats_append_pairs_witness:
  "agent_chains one_session (py ''s1'') = Some (Chain (py ''AIkey''))
   \<and> memories one_session (py ''s1'') = Some [HumanMessage (py ''hi''), AIMessage (py ''hello'')]
   \<and> list_all (\<lambda>call. session_id (fst call) = py ''s1'') two_calls
   \<and> chat_results answering_env two_calls one_session =
       map Inr [ChatResponse (py ''ok'') (py ''s1'') (py ''success''),
                ChatResponse (py ''ok'') (py ''s1'') (py ''success'')]
   \<and> memories (chats answering_env two_calls one_session) (py ''s1'') =
       Some [HumanMessage (py ''hi''), AIMessage (py ''hello''),
             HumanMessage (py ''more''), AIMessage (py ''ok''),
             HumanMessage (py ''again''), AIMessage (py ''ok'')]"
proof -
  have a: "agent_chains one_session (py ''s1'') = Some (Chain (py ''AIkey''))"
    by (simp add: one_session_def)
  have b: "memories one_session (py ''s1'')
             = Some [HumanMessage (py ''hi''), AIMessage (py ''hello'')]"
    by (simp add: one_session_def)
  have c: "list_all (\<lambda>call. session_id (fst call) = py ''s1'') two_calls"
    by (simp add: two_calls_def more_request_def)
  have d: "chat_results answering_env two_calls one_session =
       map Inr [ChatResponse (py ''ok'') (py ''s1'') (py ''success''),
                ChatResponse (py ''ok'') (py ''s1'') (py ''success'')]"
    by (simp add: two_calls_def chat_more)
       (simp add: chat_def Let_def after_more_def answering_env_def invoke_def
          load_memory_variables_def save_context_def)
  from concurrent_chats_append_pairs [OF a b c d] a b c d
  show ?thesis by (simp add: two_calls_def exchange_def more_request_def)
qed

end
